theory Spec2Isabelle
  imports Complex_Main
begin

section \<open>Python values and errors\<close>

text \<open>
  The exceptions that the modelled functions can raise. An \<open>HTTPException\<close> carries the
  status code, the detail string and the response headers, as FastAPI's does.
\<close>

datatype py_error =
    ValueError string
  | IndexError
  | KeyError
  | TypeError
  | AttributeError
  | ArgumentError
  | ValidationError
  | OverflowError
  | StopIteration
  | RuntimeError string
  | IntegrityError string
  | HTTPException int string "(string \<times> string) list"

text \<open>
  Python's \<open>xs[i]\<close>: a negative index counts from the end of the list, and an index
  outside \<open>-len(xs) .. len(xs) - 1\<close> raises \<open>IndexError\<close>.
\<close>

definition py_getitem :: "'a list \<Rightarrow> int \<Rightarrow> py_error + 'a" where
  "py_getitem xs i =
     (if 0 \<le> i \<and> i < int (length xs) then Inr (xs ! nat i)
      else if i < 0 \<and> - int (length xs) \<le> i then Inr (xs ! nat (int (length xs) + i))
      else Inl IndexError)"

text \<open>
  Python floats are modelled by exact rationals. The engine only divides an index
  difference by 11.0 (or a length by 10.0), multiplies by an integer below 11 and
  truncates; for index differences below \<open>2 ^ 48\<close> the truncated IEEE double product
  equals the truncated exact product, because the exact product is either an integer
  that the double represents exactly, or at least 1/11 away from every integer.
  Python's \<open>int(x)\<close> truncates towards zero.
\<close>

definition py_int :: "rat \<Rightarrow> int" where
  "py_int x = (if 0 \<le> x then \<lfloor>x\<rfloor> else \<lceil>x\<rceil>)"

section \<open>Tags and the binary search engine (services/binary_search.py)\<close>

record Tag =
  tag_id :: string
  tag_project_id :: string
  tag_branch_id :: string
  tag_name :: string
  tag_commit_hash :: string
  tag_sequence_number :: "int option"

record TagInfo =
  ti_id :: string
  ti_name :: string
  ti_sequence_number :: int
  ti_commit_hash :: string

record SearchCandidate =
  position :: int
  tag :: TagInfo
  selected :: bool

text \<open>\<open>tag.sequence_number or 0\<close>: both \<open>None\<close> and \<open>0\<close> give \<open>0\<close>.\<close>

definition seq_or_0 :: "Tag \<Rightarrow> int" where
  "seq_or_0 t = (case tag_sequence_number t of None \<Rightarrow> 0 | Some n \<Rightarrow> n)"

definition tag_info_of :: "Tag \<Rightarrow> TagInfo" where
  "tag_info_of t =
     \<lparr>ti_id = tag_id t, ti_name = tag_name t,
      ti_sequence_number = seq_or_0 t, ti_commit_hash = tag_commit_hash t\<rparr>"


text \<open>
  The candidate built from \<open>self.tags[i]\<close> at position \<open>i\<close>; the four reads of
  \<open>self.tags[i]\<close> raise \<open>IndexError\<close> together.
\<close>

definition candidate_at :: "Tag list \<Rightarrow> int \<Rightarrow> py_error + SearchCandidate" where
  "candidate_at tags i =
     (case py_getitem tags i of
        Inl e \<Rightarrow> Inl e
      | Inr t \<Rightarrow> Inr \<lparr>position = i, tag = tag_info_of t, selected = False\<rparr>)"

text \<open>The loop of the small-range branch: \<open>for i in range(good_index + 1, bad_index)\<close>.\<close>

fun all_between_loop ::
  "Tag list \<Rightarrow> int list \<Rightarrow> SearchCandidate list \<Rightarrow> py_error + SearchCandidate list" where
  "all_between_loop tags [] cs = Inr cs"
| "all_between_loop tags (i # rest) cs =
     (case candidate_at tags i of
        Inl e \<Rightarrow> Inl e
      | Inr c \<Rightarrow> all_between_loop tags rest (cs @ [c]))"

text \<open>
  The main loop, \<open>for i in range(1, 11)\<close>: the position is
  \<open>good_index + int(interval * i)\<close>; it is kept when it lies strictly between the two
  indices and no candidate collected so far has that position.
\<close>

fun spread_loop ::
  "Tag list \<Rightarrow> int \<Rightarrow> int \<Rightarrow> rat \<Rightarrow> int list \<Rightarrow> SearchCandidate list
     \<Rightarrow> py_error + SearchCandidate list" where
  "spread_loop tags good_index bad_index interval [] cs = Inr cs"
| "spread_loop tags good_index bad_index interval (i # rest) cs =
     (let pos = good_index + py_int (interval * of_int i) in
      if pos < bad_index \<and> pos > good_index then
        if \<not> list_ex (\<lambda>c. position c = pos) cs then
          (case candidate_at tags pos of
             Inl e \<Rightarrow> Inl e
           | Inr c \<Rightarrow> spread_loop tags good_index bad_index interval rest (cs @ [c]))
        else spread_loop tags good_index bad_index interval rest cs
      else spread_loop tags good_index bad_index interval rest cs)"

text \<open>
  The gap-filling loop: it stops as soon as ten candidates are present, and it skips the
  positions that were in use before the loop started (\<open>positions_used\<close> is not updated).
\<close>

fun fill_loop ::
  "Tag list \<Rightarrow> int list \<Rightarrow> int list \<Rightarrow> SearchCandidate list
     \<Rightarrow> py_error + SearchCandidate list" where
  "fill_loop tags positions_used [] cs = Inr cs"
| "fill_loop tags positions_used (i # rest) cs =
     (if length cs \<ge> 10 then Inr cs
      else if i \<notin> set positions_used then
        (case candidate_at tags i of
           Inl e \<Rightarrow> Inl e
         | Inr c \<Rightarrow> fill_loop tags positions_used rest (cs @ [c]))
      else fill_loop tags positions_used rest cs)"

text \<open>The final selection: \<open>candidates[int(i * step)]\<close> for \<open>i\<close> in \<open>range(10)\<close>.\<close>

fun select_loop ::
  "SearchCandidate list \<Rightarrow> rat \<Rightarrow> int list \<Rightarrow> SearchCandidate list
     \<Rightarrow> py_error + SearchCandidate list" where
  "select_loop candidates step [] acc = Inr acc"
| "select_loop candidates step (i # rest) acc =
     (case py_getitem candidates (py_int (of_int i * step)) of
        Inl e \<Rightarrow> Inl e
      | Inr c \<Rightarrow> select_loop candidates step rest (acc @ [c]))"

definition generate_candidates ::
  "Tag list \<Rightarrow> int \<Rightarrow> int \<Rightarrow> py_error + SearchCandidate list" where
  "generate_candidates tags good_index bad_index =
     (if bad_index \<le> good_index
      then Inl (ValueError ''Bad index must be greater than good index'')
      else
        let range_size = bad_index - good_index - 1 in
        if range_size \<le> 10
        then all_between_loop tags [good_index + 1 .. bad_index - 1] []
        else
          let interval = (of_int (bad_index - good_index) :: rat) / 11 in
          case spread_loop tags good_index bad_index interval [1 .. 10] [] of
            Inl e \<Rightarrow> Inl e
          | Inr cs0 \<Rightarrow>
              let cs1 = sort_key position cs0 in
              if length cs1 < 10 \<and> range_size > 10 then
                (case fill_loop tags (map position cs1)
                        [good_index + 1 .. bad_index - 1] cs1 of
                   Inl e \<Rightarrow> Inl e
                 | Inr cs2 \<Rightarrow>
                     let cs3 = sort_key position cs2 in
                     if length cs3 > 10
                     then select_loop cs3 (of_int (int (length cs3)) / 10) [0 .. 9] []
                     else Inr cs3)
              else Inr cs1)"

text \<open>
  An index that \<open>xs[i]\<close> accepts, and a small tag list used to run the engine on
  concrete inputs.
\<close>
definition valid_index :: "'a list \<Rightarrow> int \<Rightarrow> bool" where
  "valid_index xs i \<longleftrightarrow> - int (length xs) \<le> i \<and> i < int (length xs)"

definition example_tag :: "nat \<Rightarrow> Tag" where
  "example_tag n =
     \<lparr>tag_id = ''tag-'' @ replicate n CHR ''i'', tag_project_id = ''p1'', tag_branch_id = ''main'',
      tag_name = ''v'' @ replicate n CHR ''i'', tag_commit_hash = ''c0ffee'',
      tag_sequence_number = Some (int n)\<rparr>"

definition example_tags :: "Tag list" where
  "example_tags = map example_tag [0 ..< 25]"

text \<open>
  A Python \<open>dict\<close> with string keys is an association list in insertion order.
  \<open>d[k] = v\<close> replaces the value of a key that is present, in place, and appends a
  new key; \<open>d.update(other)\<close> does so for each item of \<open>other\<close> in turn.
\<close>

type_synonym 'v py_dict = "(string \<times> 'v) list"

fun dict_setitem :: "'v py_dict \<Rightarrow> string \<Rightarrow> 'v \<Rightarrow> 'v py_dict" where
  "dict_setitem [] k v = [(k, v)]"
| "dict_setitem ((k', v') # d) k v =
     (if k' = k then (k, v) # d else (k', v') # dict_setitem d k v)"

fun dict_update :: "'v py_dict \<Rightarrow> 'v py_dict \<Rightarrow> 'v py_dict" where
  "dict_update d [] = d"
| "dict_update d ((k, v) # other) = dict_update (dict_setitem d k v) other"

record BinarySearchState =
  st_good_index :: int
  st_bad_index :: int
  st_current_iteration :: int
  st_tested_tags :: "string py_dict"
  st_total_tags :: int

text \<open>\<open>find_tag_index\<close>: the first index whose tag has the given id, if any.\<close>

fun find_tag_index_from :: "int \<Rightarrow> Tag list \<Rightarrow> string \<Rightarrow> int option" where
  "find_tag_index_from i [] tid = None"
| "find_tag_index_from i (t # ts) tid =
     (if tag_id t = tid then Some i else find_tag_index_from (i + 1) ts tid)"

definition find_tag_index :: "Tag list \<Rightarrow> string \<Rightarrow> int option" where
  "find_tag_index tags tid = find_tag_index_from 0 tags tid"

text \<open>The two loops of \<open>update_range\<close> over \<open>feedback.items()\<close>.\<close>

fun rightmost_working :: "Tag list \<Rightarrow> string py_dict \<Rightarrow> int \<Rightarrow> int" where
  "rightmost_working tags [] new_good = new_good"
| "rightmost_working tags ((tid, result) # items) new_good =
     rightmost_working tags items
       (if result = ''working'' then
          (case find_tag_index tags tid of
             Some tag_index \<Rightarrow> max new_good tag_index
           | None \<Rightarrow> new_good)
        else new_good)"

fun leftmost_broken :: "Tag list \<Rightarrow> string py_dict \<Rightarrow> int \<Rightarrow> int" where
  "leftmost_broken tags [] new_bad = new_bad"
| "leftmost_broken tags ((tid, result) # items) new_bad =
     leftmost_broken tags items
       (if result = ''broken'' then
          (case find_tag_index tags tid of
             Some tag_index \<Rightarrow> min new_bad tag_index
           | None \<Rightarrow> new_bad)
        else new_bad)"

text \<open>
  \<open>update_range\<close> returns the pair \<open>(new_good, new_bad)\<close>; the state it was given has
  its \<open>tested_tags\<close> updated in place, so the model returns the state as well.
\<close>

definition update_range ::
  "Tag list \<Rightarrow> BinarySearchState \<Rightarrow> string py_dict \<Rightarrow> BinarySearchState \<times> (int \<times> int)" where
  "update_range tags state feedback =
     (state\<lparr>st_tested_tags := dict_update (st_tested_tags state) feedback\<rparr>,
      (rightmost_working tags feedback (st_good_index state),
       leftmost_broken tags feedback (st_bad_index state)))"



definition example_state :: BinarySearchState where
  "example_state =
     \<lparr>st_good_index = 4, st_bad_index = 20, st_current_iteration = 1,
      st_tested_tags = [], st_total_tags = 25\<rparr>"

definition example_feedback :: "string py_dict" where
  "example_feedback =
     [(tag_id (example_tag 7), ''working''), (tag_id (example_tag 12), ''broken'')]"

section \<open>Token verification and the authenticated-user guard (auth/)\<close>

text \<open>
  \<open>jwt.decode\<close> belongs to the \<open>jose\<close> library. It either returns the claims of the
  token, a dictionary of JSON values, or raises \<open>JWTError\<close> or one of its subclasses:
  \<open>JWTError\<close> itself when the token is malformed or its signature does not verify
  against the key, \<open>ExpiredSignatureError\<close> when the \<open>exp\<close> claim has passed,
  \<open>JWTClaimsError\<close> when a registered claim is ill-formed. The call
  \<open>jwt.decode(token, settings.secret_key, algorithms=[settings.jwt_algorithm])\<close> is a
  parameter \<open>decode\<close> of the model, so that every result below holds for every behaviour
  of the library and every configured key.
\<close>

datatype jose_error = JWTError | ExpiredSignatureError | JWTClaimsError

datatype claim_value =
    CNull
  | CBool bool
  | CNum int
  | CStr string
  | CList "claim_value list"
  | CObject

type_synonym jwt_decode = "string \<Rightarrow> jose_error + claim_value py_dict"

text \<open>
  \<open>payload.get(key)\<close> and \<open>payload.get(key, default)\<close>: an absent key gives \<open>None\<close>
  or the default; a key that holds JSON \<open>null\<close> gives \<open>None\<close> in both.
\<close>

definition dict_get :: "claim_value py_dict \<Rightarrow> string \<Rightarrow> claim_value \<Rightarrow> claim_value" where
  "dict_get d k fallback = (case map_of d k of None \<Rightarrow> fallback | Some v \<Rightarrow> v)"

text \<open>
  \<open>TokenData\<close> is a pydantic model (version 2, as \<open>config.py\<close> requires): constructing
  it validates the fields and raises \<open>ValidationError\<close> when \<open>username\<close> or \<open>user_id\<close>
  is neither \<open>None\<close> nor a string, or when \<open>scopes\<close> is not a list of strings.
\<close>

record TokenData =
  td_username :: "string option"
  td_user_id :: "string option"
  td_scopes :: "string list"

definition optional_str :: "claim_value \<Rightarrow> py_error + string option" where
  "optional_str v =
     (case v of CNull \<Rightarrow> Inr None | CStr s \<Rightarrow> Inr (Some s) | _ \<Rightarrow> Inl ValidationError)"

fun str_items :: "claim_value list \<Rightarrow> py_error + string list" where
  "str_items [] = Inr []"
| "str_items (CStr s # rest) =
     (case str_items rest of Inl e \<Rightarrow> Inl e | Inr ss \<Rightarrow> Inr (s # ss))"
| "str_items (_ # rest) = Inl ValidationError"

definition str_list :: "claim_value \<Rightarrow> py_error + string list" where
  "str_list v = (case v of CList items \<Rightarrow> str_items items | _ \<Rightarrow> Inl ValidationError)"

definition TokenData_init ::
  "claim_value \<Rightarrow> claim_value \<Rightarrow> claim_value \<Rightarrow> py_error + TokenData" where
  "TokenData_init username uid scopes =
     (case optional_str username of
        Inl e \<Rightarrow> Inl e
      | Inr u \<Rightarrow>
     (case optional_str uid of
        Inl e \<Rightarrow> Inl e
      | Inr i \<Rightarrow>
     (case str_list scopes of
        Inl e \<Rightarrow> Inl e
      | Inr ss \<Rightarrow> Inr \<lparr>td_username = u, td_user_id = i, td_scopes = ss\<rparr>)))"

text \<open>
  \<open>verify_token\<close> catches \<open>JWTError\<close> only: the result is the token data, \<open>None\<close>, or
  an exception that leaves the function.
\<close>

definition verify_token ::
  "jwt_decode \<Rightarrow> string \<Rightarrow> string \<Rightarrow> py_error + TokenData option" where
  "verify_token decode token token_type =
     (case decode token of
        Inl e \<Rightarrow> Inr None
      | Inr payload \<Rightarrow>
          if dict_get payload ''type'' CNull \<noteq> CStr token_type then Inr None
          else
            let username = dict_get payload ''sub'' CNull;
                uid = dict_get payload ''user_id'' CNull;
                scopes = dict_get payload ''scopes'' (CList [])
            in if username = CNull then Inr None
               else (case TokenData_init username uid scopes of
                       Inl e \<Rightarrow> Inl e
                     | Inr token_data \<Rightarrow> Inr (Some token_data)))"

record User =
  user_id :: string
  user_email :: string
  user_username :: string
  user_password_hash :: string
  user_is_active :: bool

text \<open>\<open>query.filter(p).first()\<close>: the first row of the table that satisfies \<open>p\<close>.\<close>

definition first_row :: "('a \<Rightarrow> bool) \<Rightarrow> 'a list \<Rightarrow> 'a option" where
  "first_row p rows = find p rows"

text \<open>\<open>" ".join(scopes)\<close>, the \<open>scope_str\<close> of \<open>SecurityScopes\<close>.\<close>

fun scope_str :: "string list \<Rightarrow> string" where
  "scope_str [] = []"
| "scope_str [s] = s"
| "scope_str (s # rest) = s @ '' '' @ scope_str rest"

definition authenticate_value :: "string list \<Rightarrow> string" where
  "authenticate_value scopes =
     (if scopes \<noteq> [] then ''Bearer scope='' @ [CHR 0x22] @ scope_str scopes @ [CHR 0x22]
      else ''Bearer'')"

definition credentials_exception :: "string list \<Rightarrow> py_error" where
  "credentials_exception scopes =
     HTTPException 401 ''Could not validate credentials''
       [(''WWW-Authenticate'', authenticate_value scopes)]"

text \<open>The scope loop of \<open>get_current_user\<close>: the first missing scope raises 403.\<close>

fun check_scopes :: "string list \<Rightarrow> string list \<Rightarrow> string list \<Rightarrow> py_error option" where
  "check_scopes all_scopes [] token_scopes = None"
| "check_scopes all_scopes (scope # rest) token_scopes =
     (if scope \<notin> set token_scopes
      then Some (HTTPException 403 ''Not enough permissions''
                   [(''WWW-Authenticate'', authenticate_value all_scopes)])
      else check_scopes all_scopes rest token_scopes)"

definition get_current_user ::
  "jwt_decode \<Rightarrow> User list \<Rightarrow> string list \<Rightarrow> string \<Rightarrow> py_error + User" where
  "get_current_user decode users security_scopes token =
     (case verify_token decode token ''access'' of
        Inl e \<Rightarrow> Inl e
      | Inr None \<Rightarrow> Inl (credentials_exception security_scopes)
      | Inr (Some token_data) \<Rightarrow>
          (case first_row (\<lambda>u. Some (user_username u) = td_username token_data) users of
             None \<Rightarrow> Inl (credentials_exception security_scopes)
           | Some user \<Rightarrow>
               if \<not> user_is_active user
               then Inl (HTTPException 400 ''Inactive user'' [])
               else
                 (case check_scopes security_scopes security_scopes (td_scopes token_data) of
                    Some e \<Rightarrow> Inl e
                  | None \<Rightarrow> Inr user)))"

definition get_current_active_user :: "py_error + User \<Rightarrow> py_error + User" where
  "get_current_active_user current_user =
     (case current_user of
        Inl e \<Rightarrow> Inl e
      | Inr u \<Rightarrow> if \<not> user_is_active u then Inl (HTTPException 400 ''Inactive user'' [])
                 else Inr u)"

text \<open>A library behaviour and a user table for running the guard on concrete inputs.\<close>

definition access_claims :: "string \<Rightarrow> string \<Rightarrow> claim_value \<Rightarrow> claim_value py_dict" where
  "access_claims subject uid scopes =
     [(''sub'', CStr subject), (''user_id'', CStr uid), (''scopes'', scopes),
      (''exp'', CNum 1900000000), (''type'', CStr ''access'')]"

definition example_decode :: jwt_decode where
  "example_decode token =
     (if token = ''token-alice'' then
        Inr (access_claims ''alice'' ''u1'' (CList [CStr ''read'', CStr ''write'']))
      else if token = ''token-bob'' then
        Inr (access_claims ''bob'' ''u2'' (CList [CStr ''read'']))
      else if token = ''token-carol'' then
        Inr [(''sub'', CStr ''carol''), (''user_id'', CStr ''u3''),
             (''exp'', CNum 1900000000), (''type'', CStr ''access'')]
      else if token = ''refresh-alice'' then
        Inr [(''sub'', CStr ''alice''), (''user_id'', CStr ''u1''),
             (''scopes'', CList [CStr ''read'', CStr ''write'']),
             (''exp'', CNum 1900000000), (''type'', CStr ''refresh'')]
      else if token = ''token-nosub'' then
        Inr [(''user_id'', CStr ''u1''), (''scopes'', CList []),
             (''exp'', CNum 1900000000), (''type'', CStr ''access'')]
      else if token = ''token-null-scopes'' then
        Inr (access_claims ''alice'' ''u1'' CNull)
      else if token = ''token-expired'' then Inl ExpiredSignatureError
      else Inl JWTError)"

definition example_users :: "User list" where
  "example_users =
     [\<lparr>user_id = ''u1'', user_email = ''alice@example.org'', user_username = ''alice'',
       user_password_hash = ''h1'', user_is_active = True\<rparr>,
      \<lparr>user_id = ''u2'', user_email = ''bob@example.org'', user_username = ''bob'',
       user_password_hash = ''h2'', user_is_active = False\<rparr>]"

section \<open>The database (models/)\<close>

text \<open>
  Each table is the list of its rows. A primary key generated by \<open>uuid.uuid4\<close> and a
  timestamp read from the clock are parameters of the function that needs them. An
  endpoint returns the committed database together with its response or the exception
  it raised; an exception raised before \<open>db.commit()\<close> leaves the database as it was.
  Of the declared table constraints, the \<open>CheckConstraint\<close>s are enforced at commit;
  unique and foreign-key constraints are not modelled.
\<close>

datatype json = JNull | JBool bool | JInt int | JStr string | JTimestamp nat

record Project =
  project_id :: string
  project_name :: string
  project_created_by :: string

record Branch =
  branch_id :: string
  branch_project_id :: string
  branch_name :: string

record LocalizationTask =
  lt_id :: string
  lt_user_id :: string
  lt_project_id :: string
  lt_branch_id :: string
  lt_task_name :: string
  lt_description :: "string option"
  lt_good_tag_id :: string
  lt_bad_tag_id :: string
  lt_status :: string
  lt_total_tags_in_range :: "int option"
  lt_current_iteration :: int
  lt_final_problematic_tag_id :: "string option"
  lt_resolution_notes :: "string option"
  lt_created_at :: nat
  lt_updated_at :: nat

record TaskIteration =
  it_id :: string
  it_task_id :: string
  it_iteration_number :: int
  it_search_range_start :: int
  it_search_range_end :: int
  it_candidates_generated :: "int \<times> int list \<times> nat"
  it_selected_candidates :: "(int list \<times> int) option"

record TaskSession =
  ts_id :: string
  ts_task_id :: string
  ts_session_data :: "json py_dict"
  ts_current_range_start :: "int option"
  ts_current_range_end :: "int option"

record BuildJob =
  bj_id :: string
  bj_task_id :: string
  bj_iteration_id :: string
  bj_tag_id :: string
  bj_external_build_id :: "string option"
  bj_build_service :: string
  bj_status :: string
  bj_completed_at :: "nat option"

record UserFeedback =
  uf_id :: string
  uf_task_id :: string
  uf_iteration_id :: string
  uf_build_job_id :: string
  uf_tag_id :: string
  uf_feedback_type :: string
  uf_notes :: "string option"
  uf_created_by :: string

record ServiceConfig =
  sc_service_type :: string
  sc_service_name :: string
  sc_is_active :: bool
  sc_config_data :: "string py_dict option"
  sc_api_key_encrypted :: "string option"

record Database =
  db_projects :: "Project list"
  db_branches :: "Branch list"
  db_tags :: "Tag list"
  db_tasks :: "LocalizationTask list"
  db_iterations :: "TaskIteration list"
  db_sessions :: "TaskSession list"
  db_build_jobs :: "BuildJob list"
  db_feedback :: "UserFeedback list"
  db_service_configs :: "ServiceConfig list"

text \<open>
  The filter \<open>Tag.sequence_number >= v\<close> (and \<open><=\<close>) with a Python value \<open>v\<close>. When
  \<open>v\<close> is \<open>None\<close>, SQLAlchemy refuses to build the expression and raises
  \<open>ArgumentError\<close>. When \<open>v\<close> is an integer, a row whose column is \<open>NULL\<close> does not
  satisfy the comparison.
\<close>

definition column_ge :: "int option \<Rightarrow> int \<Rightarrow> bool" where
  "column_ge column v = (case column of None \<Rightarrow> False | Some x \<Rightarrow> x \<ge> v)"

definition column_le :: "int option \<Rightarrow> int \<Rightarrow> bool" where
  "column_le column v = (case column of None \<Rightarrow> False | Some x \<Rightarrow> x \<le> v)"

text \<open>The check constraints of \<open>localization_tasks\<close> and \<open>task_iterations\<close>.\<close>

definition check_different_tags :: "LocalizationTask \<Rightarrow> bool" where
  "check_different_tags t \<longleftrightarrow> lt_bad_tag_id t \<noteq> lt_good_tag_id t"

definition check_range_valid :: "TaskIteration \<Rightarrow> bool" where
  "check_range_valid it \<longleftrightarrow> it_search_range_end it > it_search_range_start it"

text \<open>The task of the given id that the given user owns.\<close>

definition owned_task :: "Database \<Rightarrow> string \<Rightarrow> User \<Rightarrow> LocalizationTask option" where
  "owned_task db tid current_user =
     first_row (\<lambda>t. lt_id t = tid \<and> lt_user_id t = user_id current_user) (db_tasks db)"

text \<open>
  The build job of the given id, joined with its task, that the given user owns:
  \<open>db.query(BuildJob).join(LocalizationTask, ...).filter(...).first()\<close>.
\<close>

definition owned_build_job :: "Database \<Rightarrow> string \<Rightarrow> User \<Rightarrow> BuildJob option" where
  "owned_build_job db build_id current_user =
     first_row
       (\<lambda>b. bj_id b = build_id
            \<and> list_ex (\<lambda>t. lt_id t = bj_task_id b \<and> lt_user_id t = user_id current_user)
                 (db_tasks db))
       (db_build_jobs db)"

section \<open>Task endpoints (api/tasks.py)\<close>

record TaskCreate =
  tc_task_name :: string
  tc_description :: "string option"
  tc_project_id :: string
  tc_branch_id :: string
  tc_good_tag_name :: string
  tc_bad_tag_name :: string

definition named_tag :: "Database \<Rightarrow> TaskCreate \<Rightarrow> string \<Rightarrow> Tag option" where
  "named_tag db task_data name =
     first_row
       (\<lambda>t. tag_name t = name \<and> tag_project_id t = tc_project_id task_data
            \<and> tag_branch_id t = tc_branch_id task_data)
       (db_tags db)"

text \<open>
  The rows of a project and branch whose sequence number lies in a closed range with
  integer bounds.
\<close>

definition tags_in_range :: "Database \<Rightarrow> string \<Rightarrow> string \<Rightarrow> int \<Rightarrow> int \<Rightarrow> Tag list" where
  "tags_in_range db pid bid lo hi =
     filter
       (\<lambda>t. tag_project_id t = pid \<and> tag_branch_id t = bid
            \<and> column_ge (tag_sequence_number t) lo \<and> column_le (tag_sequence_number t) hi)
       (db_tags db)"

text \<open>
  \<open>create_task\<close>. The order check reads \<open>sequence_number or 0\<close>; the count query compares
  the column with the two sequence numbers themselves and cannot be built when one of
  them is \<open>None\<close>.
\<close>

definition create_task ::
  "Database \<Rightarrow> User \<Rightarrow> TaskCreate \<Rightarrow> string \<Rightarrow> string \<Rightarrow> nat
     \<Rightarrow> Database \<times> (py_error + LocalizationTask)" where
  "create_task db current_user task_data new_task_id new_session_id now =
     (case first_row
             (\<lambda>p. project_id p = tc_project_id task_data
                  \<and> project_created_by p = user_id current_user)
             (db_projects db) of
        None \<Rightarrow> (db, Inl (HTTPException 404 ''Project not found or access denied'' []))
      | Some project \<Rightarrow>
     (case first_row
             (\<lambda>b. branch_id b = tc_branch_id task_data
                  \<and> branch_project_id b = tc_project_id task_data)
             (db_branches db) of
        None \<Rightarrow> (db, Inl (HTTPException 404 ''Branch not found'' []))
      | Some branch \<Rightarrow>
     (case named_tag db task_data (tc_good_tag_name task_data) of
        None \<Rightarrow>
          (db, Inl (HTTPException 404
             (''Good tag '' @ [CHR 0x27] @ tc_good_tag_name task_data @ [CHR 0x27]
                @ '' not found'') []))
      | Some good_tag \<Rightarrow>
     (case named_tag db task_data (tc_bad_tag_name task_data) of
        None \<Rightarrow>
          (db, Inl (HTTPException 404
             (''Bad tag '' @ [CHR 0x27] @ tc_bad_tag_name task_data @ [CHR 0x27]
                @ '' not found'') []))
      | Some bad_tag \<Rightarrow>
          if seq_or_0 good_tag \<ge> seq_or_0 bad_tag
          then (db, Inl (HTTPException 400
                  ''Good tag must have a lower sequence number than bad tag'' []))
          else
          (case tag_sequence_number good_tag of
             None \<Rightarrow> (db, Inl ArgumentError)
           | Some good_sequence \<Rightarrow>
          (case tag_sequence_number bad_tag of
             None \<Rightarrow> (db, Inl ArgumentError)
           | Some bad_sequence \<Rightarrow>
            let total_tags =
                  int (length (tags_in_range db (tc_project_id task_data)
                         (tc_branch_id task_data) good_sequence bad_sequence));
                task =
                  \<lparr>lt_id = new_task_id, lt_user_id = user_id current_user,
                   lt_project_id = tc_project_id task_data,
                   lt_branch_id = tc_branch_id task_data,
                   lt_task_name = tc_task_name task_data,
                   lt_description = tc_description task_data,
                   lt_good_tag_id = tag_id good_tag, lt_bad_tag_id = tag_id bad_tag,
                   lt_status = ''active'', lt_total_tags_in_range = Some total_tags,
                   lt_current_iteration = 0, lt_final_problematic_tag_id = None,
                   lt_resolution_notes = None, lt_created_at = now, lt_updated_at = now\<rparr>
            in if \<not> check_different_tags task
               then (db, Inl (IntegrityError ''check_different_tags''))
               else
                 let db1 = db\<lparr>db_tasks := db_tasks db @ [task]\<rparr>;
                     session =
                       \<lparr>ts_id = new_session_id, ts_task_id = lt_id task,
                        ts_session_data =
                          [(''good_tag_sequence'', JInt good_sequence),
                           (''bad_tag_sequence'', JInt bad_sequence),
                           (''initialization_time'', JTimestamp (lt_created_at task))],
                        ts_current_range_start = Some 0,
                        ts_current_range_end = Some (total_tags - 1)\<rparr>
                 in (db1\<lparr>db_sessions := db_sessions db1 @ [session]\<rparr>, Inr task)))))))"








record SelectionResponse =
  sr_message :: string
  sr_iteration_id :: string
  sr_selected_count :: int
  sr_next_step :: string

text \<open>
  The iteration that \<open>select_candidates_for_testing\<close> constructs, and the endpoint. The
  insert of the iteration and the update of the task's counter are flushed by one
  \<open>db.commit()\<close>; when the insert violates \<open>check_range_valid\<close> the commit raises
  \<open>IntegrityError\<close> and nothing is stored.
\<close>

definition new_iteration :: "LocalizationTask \<Rightarrow> string \<Rightarrow> int list \<Rightarrow> string \<Rightarrow> TaskIteration" where
  "new_iteration task tid candidate_indices new_iteration_id =
     \<lparr>it_id = new_iteration_id, it_task_id = tid,
      it_iteration_number = lt_current_iteration task + 1,
      it_search_range_start = 0,
      it_search_range_end = 0,
      it_candidates_generated = (10, candidate_indices, lt_updated_at task),
      it_selected_candidates = Some (candidate_indices, int (length candidate_indices))\<rparr>"

definition select_candidates_for_testing ::
  "Database \<Rightarrow> User \<Rightarrow> string \<Rightarrow> int list \<Rightarrow> string \<Rightarrow> Database \<times> (py_error + SelectionResponse)" where
  "select_candidates_for_testing db current_user tid candidate_indices new_iteration_id =
     (case owned_task db tid current_user of
        None \<Rightarrow> (db, Inl (HTTPException 404 ''Task not found'' []))
      | Some task \<Rightarrow>
     if lt_status task \<noteq> ''active''
     then (db, Inl (HTTPException 400 ''Task is not active'' []))
     else if length candidate_indices < 3 \<or> length candidate_indices > 5
     then (db, Inl (HTTPException 400 ''Must select between 3 and 5 candidates'' []))
     else
       let iteration = new_iteration task tid candidate_indices new_iteration_id in
       if \<not> check_range_valid iteration
       then (db, Inl (IntegrityError ''check_range_valid''))
       else
         (db\<lparr>db_iterations := db_iterations db @ [iteration],
             db_tasks :=
               map (\<lambda>t. if lt_id t = lt_id task
                         then t\<lparr>lt_current_iteration := lt_current_iteration task + 1\<rparr>
                         else t)
                 (db_tasks db)\<rparr>,
          Inr \<lparr>sr_message = ''Candidates selected successfully'',
               sr_iteration_id = it_id iteration,
               sr_selected_count = int (length candidate_indices),
               sr_next_step = ''trigger_builds''\<rparr>))"







section \<open>Build endpoints (api/builds.py)\<close>

record BuildFeedbackRequest =
  fr_feedback_type :: string
  fr_notes :: "string option"

definition submit_build_feedback ::
  "Database \<Rightarrow> User \<Rightarrow> string \<Rightarrow> BuildFeedbackRequest \<Rightarrow> string
     \<Rightarrow> Database \<times> (py_error + UserFeedback)" where
  "submit_build_feedback db current_user build_id feedback new_feedback_id =
     (case owned_build_job db build_id current_user of
        None \<Rightarrow> (db, Inl (HTTPException 404 ''Build job not found'' []))
      | Some build_job \<Rightarrow>
     (case first_row (\<lambda>f. uf_build_job_id f = build_id) (db_feedback db) of
        Some existing_feedback \<Rightarrow>
          (db\<lparr>db_feedback :=
                map (\<lambda>f. if uf_id f = uf_id existing_feedback
                          then f\<lparr>uf_feedback_type := fr_feedback_type feedback,
                                 uf_notes := fr_notes feedback\<rparr>
                          else f)
                  (db_feedback db)\<rparr>,
           Inr (existing_feedback\<lparr>uf_feedback_type := fr_feedback_type feedback,
                                   uf_notes := fr_notes feedback\<rparr>))
      | None \<Rightarrow>
          let user_feedback =
                \<lparr>uf_id = new_feedback_id, uf_task_id = bj_task_id build_job,
                 uf_iteration_id = bj_iteration_id build_job,
                 uf_build_job_id = bj_id build_job, uf_tag_id = bj_tag_id build_job,
                 uf_feedback_type = fr_feedback_type feedback,
                 uf_notes = fr_notes feedback,
                 uf_created_by = user_id current_user\<rparr>
          in (db\<lparr>db_feedback := db_feedback db @ [user_feedback]\<rparr>, Inr user_feedback)))"

text \<open>
  The external side of a cancellation: \<open>BuildServiceFactory.create_service\<close> applied to
  the service name and the configuration, followed by the service's \<open>cancel_build\<close> on
  the external build id. Together they either return a boolean or raise; this is the
  parameter \<open>external_cancel\<close>.
\<close>

type_synonym external_cancel = "string \<Rightarrow> string py_dict \<Rightarrow> string \<Rightarrow> py_error + bool"

definition active_build_service :: "Database \<Rightarrow> string \<Rightarrow> ServiceConfig option" where
  "active_build_service db name =
     first_row
       (\<lambda>c. sc_service_type c = ''build_service'' \<and> sc_service_name c = name \<and> sc_is_active c)
       (db_service_configs db)"

text \<open>
  \<open>config_data = service_config.config_data or {}\<close>, with the \<open>api_token\<close> set when the
  encrypted key is a non-empty string.
\<close>

definition service_config_data :: "ServiceConfig \<Rightarrow> string py_dict" where
  "service_config_data c =
     (let config_data = (case sc_config_data c of None \<Rightarrow> [] | Some d \<Rightarrow> d)
      in (case sc_api_key_encrypted c of
            None \<Rightarrow> config_data
          | Some k \<Rightarrow> if k \<noteq> [] then dict_setitem config_data ''api_token'' k
                      else config_data))"

text \<open>The \<open>try\<close> block of \<open>cancel_build\<close>: every exception leaves \<open>success\<close> false.\<close>

definition try_external_cancel :: "external_cancel \<Rightarrow> Database \<Rightarrow> BuildJob \<Rightarrow> bool" where
  "try_external_cancel ext db build_job =
     (case bj_external_build_id build_job of
        None \<Rightarrow> False
      | Some external_id \<Rightarrow>
          if external_id = [] then False
          else
            (case active_build_service db (bj_build_service build_job) of
               None \<Rightarrow> False
             | Some service_config \<Rightarrow>
                 (case ext (bj_build_service build_job) (service_config_data service_config)
                         external_id of
                    Inl e \<Rightarrow> False
                  | Inr success \<Rightarrow> success)))"

record CancelResponse =
  cn_message :: string
  cn_external_cancellation :: "bool option"
  cn_status :: string

definition cancel_build ::
  "external_cancel \<Rightarrow> Database \<Rightarrow> User \<Rightarrow> string \<Rightarrow> nat
     \<Rightarrow> Database \<times> (py_error + CancelResponse)" where
  "cancel_build ext db current_user build_id now =
     (case owned_build_job db build_id current_user of
        None \<Rightarrow> (db, Inl (HTTPException 404 ''Build job not found'' []))
      | Some build_job \<Rightarrow>
          if bj_status build_job \<in> set [''success'', ''failed'', ''cancelled'']
          then (db, Inr \<lparr>cn_message = ''Build is already completed'',
                         cn_external_cancellation = None,
                         cn_status = bj_status build_job\<rparr>)
          else
            let success = try_external_cancel ext db build_job
            in (db\<lparr>db_build_jobs :=
                     map (\<lambda>b. if bj_id b = bj_id build_job
                               then (if bj_completed_at build_job = None
                                     then b\<lparr>bj_status := ''cancelled'',
                                            bj_completed_at := Some now\<rparr>
                                     else b\<lparr>bj_status := ''cancelled''\<rparr>)
                               else b)
                       (db_build_jobs db)\<rparr>,
                Inr \<lparr>cn_message = (if success then ''Build cancelled''
                                    else ''Build marked as cancelled locally''),
                     cn_external_cancellation = Some success,
                     cn_status = ''cancelled''\<rparr>))"

section \<open>Sequences of requests\<close>






section \<open>A small database\<close>

text \<open>
  One project with the 25 example tags on its branch, a task of user \<open>alice\<close> over
  the tags 3 to 20 with its session, and three build jobs, one of them with feedback.
\<close>

definition alice :: User where
  "alice = \<lparr>user_id = ''u1'', user_email = ''alice@example.org'', user_username = ''alice'',
            user_password_hash = ''h1'', user_is_active = True\<rparr>"

definition example_task :: LocalizationTask where
  "example_task =
     \<lparr>lt_id = ''task1'', lt_user_id = ''u1'', lt_project_id = ''p1'', lt_branch_id = ''main'',
      lt_task_name = ''regression'', lt_description = None,
      lt_good_tag_id = tag_id (example_tag 3), lt_bad_tag_id = tag_id (example_tag 20),
      lt_status = ''active'', lt_total_tags_in_range = Some 18, lt_current_iteration = 0,
      lt_final_problematic_tag_id = None, lt_resolution_notes = None,
      lt_created_at = 100, lt_updated_at = 100\<rparr>"

definition example_job :: "string \<Rightarrow> nat \<Rightarrow> string \<Rightarrow> nat option \<Rightarrow> BuildJob" where
  "example_job jid n job_status done =
     \<lparr>bj_id = jid, bj_task_id = ''task1'', bj_iteration_id = ''it1'',
      bj_tag_id = tag_id (example_tag n), bj_external_build_id = Some (''ext-'' @ jid),
      bj_build_service = ''jenkins'', bj_status = job_status, bj_completed_at = done\<rparr>"

definition example_db :: Database where
  "example_db =
     \<lparr>db_projects = [\<lparr>project_id = ''p1'', project_name = ''vils'', project_created_by = ''u1''\<rparr>],
      db_branches = [\<lparr>branch_id = ''main'', branch_project_id = ''p1'', branch_name = ''main''\<rparr>],
      db_tags = example_tags,
      db_tasks = [example_task],
      db_iterations = [],
      db_sessions =
        [\<lparr>ts_id = ''s1'', ts_task_id = ''task1'', ts_session_data = [],
          ts_current_range_start = Some 0, ts_current_range_end = Some 17\<rparr>],
      db_build_jobs =
        [example_job ''b1'' 5 ''running'' None,
         example_job ''b2'' 9 ''success'' (Some 150),
         example_job ''b3'' 12 ''pending'' None],
      db_feedback =
        [\<lparr>uf_id = ''f1'', uf_task_id = ''task1'', uf_iteration_id = ''it1'',
          uf_build_job_id = ''b2'', uf_tag_id = tag_id (example_tag 9),
          uf_feedback_type = ''working'', uf_notes = None, uf_created_by = ''u1''\<rparr>],
      db_service_configs =
        [\<lparr>sc_service_type = ''build_service'', sc_service_name = ''jenkins'',
          sc_is_active = True, sc_config_data = Some [(''base_url'', ''http://ci'')],
          sc_api_key_encrypted = Some ''secret''\<rparr>]\<rparr>"


text \<open>External services: one that raises, one that refuses, one that succeeds.\<close>

definition ext_raises :: external_cancel where
  "ext_raises name config external_id = Inl (RuntimeError ''connection refused'')"

definition ext_refuses :: external_cancel where
  "ext_refuses name config external_id = Inr False"

definition ext_accepts :: external_cancel where
  "ext_accepts name config external_id = Inr True"


chapter \<open>Verification\<close>

section \<open>Queries on tables\<close>

lemma first_row_SomeD: "first_row p rows = Some x \<Longrightarrow> x \<in> set rows \<and> p x"
  unfolding first_row_def by (auto simp: find_Some_iff)


lemma first_row_None_iff: "first_row p rows = None \<longleftrightarrow> (\<forall>x \<in> set rows. \<not> p x)"
  unfolding first_row_def by (auto simp: find_None_iff)

lemma first_row_map:
  "(\<And>x. p (f x) = p x) \<Longrightarrow> first_row p (map f rows) = map_option f (first_row p rows)"
  unfolding first_row_def by (induction rows) auto

lemma filter_single:
  "length (filter p rows) \<le> 1 \<Longrightarrow> x \<in> set rows \<Longrightarrow> p x \<Longrightarrow> filter p rows = [x]"
proof -
  assume a: "length (filter p rows) \<le> 1" "x \<in> set rows" "p x"
  then have "x \<in> set (filter p rows)" by simp
  with a(1) show ?thesis by (cases "filter p rows") auto
qed

section \<open>Candidate generation\<close>

lemma py_getitem_valid:
  "valid_index xs i \<Longrightarrow> \<exists>x. py_getitem xs i = Inr x"
  by (auto simp: valid_index_def py_getitem_def)

lemma candidate_at_valid:
  "valid_index tags i \<Longrightarrow> \<exists>c. candidate_at tags i = Inr c \<and> position c = i"
  using py_getitem_valid[of tags i] by (auto simp: candidate_at_def)

lemma all_between_loop_positions:
  "\<forall>i \<in> set js. valid_index tags i \<Longrightarrow>
   \<exists>cs'. all_between_loop tags js cs = Inr (cs @ cs') \<and> map position cs' = js"
proof (induction js arbitrary: cs)
  case Nil
  then show ?case by simp
next
  case (Cons j js)
  from Cons.prems obtain c where c: "candidate_at tags j = Inr c" "position c = j"
    using candidate_at_valid[of tags j] by auto
  from Cons.prems have "\<forall>i \<in> set js. valid_index tags i" by simp
  from Cons.IH[OF this, of "cs @ [c]"] obtain cs' where
    "all_between_loop tags js (cs @ [c]) = Inr ((cs @ [c]) @ cs')" "map position cs' = js"
    by blast
  with c show ?case by (intro exI[of _ "c # cs'"]) simp
qed

lemma spread_loop_positions:
  assumes "\<forall>i \<in> set js. good < good + py_int (iv * of_int i) \<and> good + py_int (iv * of_int i) < bad
              \<and> valid_index tags (good + py_int (iv * of_int i))"
    and "sorted_wrt (<) (map (\<lambda>i. good + py_int (iv * of_int i)) js)"
    and "\<forall>c \<in> set cs. \<forall>i \<in> set js. position c < good + py_int (iv * of_int i)"
  shows "\<exists>cs'. spread_loop tags good bad iv js cs = Inr (cs @ cs')
            \<and> map position cs' = map (\<lambda>i. good + py_int (iv * of_int i)) js"
  using assms
proof (induction js arbitrary: cs)
  case Nil
  then show ?case by simp
next
  case (Cons j js)
  let ?f = "\<lambda>i. good + py_int (iv * of_int i)"
  from Cons.prems(1) have rng: "good < ?f j" "?f j < bad" and v: "valid_index tags (?f j)"
    by simp_all
  from v obtain c where c: "candidate_at tags (?f j) = Inr c" "position c = ?f j"
    using candidate_at_valid by blast
  from Cons.prems(3) have fresh: "\<not> list_ex (\<lambda>c. position c = ?f j) cs"
    by (auto simp: list_ex_iff)
  have p1: "\<forall>i \<in> set js. good < ?f i \<and> ?f i < bad \<and> valid_index tags (?f i)"
    using Cons.prems(1) by simp
  have p2: "sorted_wrt (<) (map ?f js)" using Cons.prems(2) by simp
  have p3: "\<forall>c' \<in> set (cs @ [c]). \<forall>i \<in> set js. position c' < ?f i"
    using Cons.prems(2,3) c(2) by auto
  from Cons.IH[OF p1 p2 p3] obtain cs' where
    r: "spread_loop tags good bad iv js (cs @ [c]) = Inr ((cs @ [c]) @ cs')"
       "map position cs' = map ?f js"
    by blast
  have "spread_loop tags good bad iv (j # js) cs = spread_loop tags good bad iv js (cs @ [c])"
    using rng fresh c(1) by (simp add: Let_def)
  with r c(2) show ?case by (intro exI[of _ "c # cs'"]) simp
qed

lemma py_int_interval:
  "0 \<le> d \<Longrightarrow> 0 \<le> i \<Longrightarrow> py_int ((of_int d :: rat) / 11 * of_int i) = (d * i) div 11"
proof -
  assume a: "0 \<le> d" "0 \<le> i"
  have e: "(of_int d :: rat) / 11 * of_int i = of_int (d * i) / of_int 11" by simp
  have "0 \<le> (of_int (d * i) :: rat) / of_int 11" using a by simp
  then show ?thesis unfolding e py_int_def by (simp only: if_True floor_divide_of_int_eq)
qed

lemma spread_step_mono:
  fixes d i j :: int
  assumes "11 \<le> d" "i < j"
  shows "(d * i) div 11 < (d * j) div 11"
proof -
  have "d * i + 11 \<le> d * j"
  proof -
    have "d * (i + 1) \<le> d * j" using assms by (intro mult_left_mono) auto
    then show ?thesis using assms(1) by (simp add: algebra_simps)
  qed
  then have "(d * i + 11) div 11 \<le> (d * j) div 11" by (rule zdiv_mono1) simp
  then show ?thesis by simp
qed

lemma spread_step_bounds:
  fixes d i :: int
  assumes "11 \<le> d" "1 \<le> i" "i \<le> 10"
  shows "0 < (d * i) div 11" "(d * i) div 11 < d"
proof -
  have "11 * 1 \<le> d * i" using assms by (intro mult_mono) auto
  then have "11 \<le> d * i" by simp
  then show "0 < (d * i) div 11" by (simp add: pos_imp_zdiv_pos_iff)
  have "d * i \<le> d * 10" using assms by (intro mult_left_mono) auto
  then have "d * i < 11 * d" using assms(1) by linarith
  moreover have "\<And>x::int. x < 11 * d \<Longrightarrow> x div 11 < d" by linarith
  ultimately show "(d * i) div 11 < d" by blast
  
qed


lemma generate_candidates_small:
  assumes v: "- int (length tags) \<le> good + 1" "bad \<le> int (length tags)"
    and r: "good < bad" "bad - good - 1 \<le> 10"
  shows "\<exists>cs. generate_candidates tags good bad = Inr cs \<and> map position cs = [good + 1 .. bad - 1]"
proof -
  have "\<forall>i \<in> set [good + 1 .. bad - 1]. valid_index tags i"
    using v by (auto simp: valid_index_def)
  from all_between_loop_positions[OF this, of "[]"] r show ?thesis
    by (auto simp: generate_candidates_def)
qed

lemma generate_candidates_large:
  assumes v: "- int (length tags) \<le> good + 1" "bad \<le> int (length tags)"
    and r: "bad - good - 1 > 10"
  shows "\<exists>cs. generate_candidates tags good bad = Inr cs
           \<and> map position cs = map (\<lambda>i. good + ((bad - good) * i) div 11) [1 .. 10]"
proof -
  let ?d = "bad - good"
  let ?iv = "(of_int ?d :: rat) / 11"
  let ?f = "\<lambda>i. good + py_int (?iv * of_int i)"
  let ?g = "\<lambda>i. good + (?d * i) div 11"
  from r have d: "11 \<le> ?d" by simp
  have fg: "?f i = ?g i" if "i \<in> set [1 .. 10]" for i
    using that d py_int_interval[of ?d i] by simp
  have bnd: "good < ?g i \<and> ?g i < bad" if "i \<in> set [1 .. 10]" for i
    using that spread_step_bounds[OF d, of i] by simp
  have a1: "\<forall>i \<in> set [1 .. 10]. good < ?f i \<and> ?f i < bad \<and> valid_index tags (?f i)"
  proof
    fix i :: int assume i: "i \<in> set [1 .. 10]"
    from bnd[OF i] fg[OF i] v show "good < ?f i \<and> ?f i < bad \<and> valid_index tags (?f i)"
      by (simp add: valid_index_def)
  qed
  have mapeq: "map ?f [1 .. 10] = map ?g [1 .. 10]"
    using fg by (intro map_cong refl) 
  have "sorted_wrt (<) (map ?g [1 .. 10])"
    by (rule sorted_wrt_map_mono[OF sorted_wrt_upto]) (use spread_step_mono[OF d] in simp)
  then have a2: "sorted_wrt (<) (map ?f [1 .. 10])" by (simp only: mapeq)
  have a3: "\<forall>c \<in> set []. \<forall>i \<in> set [1 .. 10]. position c < ?f i" by simp
  from spread_loop_positions[of "[1 .. 10]" good ?iv bad tags "[]", OF a1 a2 a3]
  obtain cs where cs: "spread_loop tags good bad ?iv [1 .. 10] [] = Inr cs"
    "map position cs = map ?f [1 .. 10]" by auto
  from cs(2) a2 have "sorted (map position cs)" by (simp add: strict_sorted_imp_sorted)
  then have srt: "sort_key position cs = cs" by (rule sort_key_id_if_sorted)
  have "length (map position cs) = length (map ?f [1 .. 10])" by (simp only: cs(2))
  then have len: "length cs = 10" by simp
  have "generate_candidates tags good bad = Inr cs"
    using r cs(1) srt len by (simp add: generate_candidates_def Let_def)
  with cs(2) mapeq show ?thesis by simp
qed

lemma upto_1_10: "[1 .. 10] = [1, 2, 3, 4, 5, 6, 7, 8, 9, 10 :: int]"
  by code_simp

lemma upto_6_8: "[5 + 1 .. 9 - 1] = [6, 7, 8 :: int]"
  by code_simp

text \<open>
  Claim C1. Let the indices strictly between \<open>good_index\<close> and \<open>bad_index\<close> be indices
  that \<open>self.tags\<close> accepts. When more than ten indices lie strictly between the two,
  \<open>generate_candidates\<close> returns exactly ten candidates whose positions are pairwise
  distinct, strictly increasing and strictly between the two indices; for the indices
  0 and 24 the positions are 2, 4, 6, 8, 10, 13, 15, 17, 19, 21. When between one and ten
  indices lie strictly between the two, it returns one candidate for each of them, in
  ascending order; for the indices 5 and 9 the positions are 6, 7, 8.
\<close>

theorem generate_candidates_positions:
  assumes "- int (length tags) \<le> good_index + 1" and "bad_index \<le> int (length tags)"
  shows "(bad_index - good_index - 1 > 10 \<longrightarrow>
           (\<exists>cs. generate_candidates tags good_index bad_index = Inr cs
              \<and> length cs = 10
              \<and> distinct (map position cs)
              \<and> sorted_wrt (<) (map position cs)
              \<and> (\<forall>c \<in> set cs. good_index < position c \<and> position c < bad_index)))
       \<and> (0 < bad_index - good_index - 1 \<and> bad_index - good_index - 1 \<le> 10 \<longrightarrow>
           (\<exists>cs. generate_candidates tags good_index bad_index = Inr cs
              \<and> map position cs = [good_index + 1 .. bad_index - 1]))
       \<and> (good_index = 0 \<and> bad_index = 24 \<longrightarrow>
           (\<exists>cs. generate_candidates tags good_index bad_index = Inr cs
              \<and> map position cs = [2, 4, 6, 8, 10, 13, 15, 17, 19, 21]))
       \<and> (good_index = 5 \<and> bad_index = 9 \<longrightarrow>
           (\<exists>cs. generate_candidates tags good_index bad_index = Inr cs
              \<and> map position cs = [6, 7, 8]))"
proof (intro conjI impI)
  let ?d = "bad_index - good_index"
  let ?g = "\<lambda>i. good_index + (?d * i) div 11"
  assume r: "bad_index - good_index - 1 > 10"
  then have d: "11 \<le> ?d" by simp
  from generate_candidates_large[OF assms r] obtain cs where
    cs: "generate_candidates tags good_index bad_index = Inr cs"
        "map position cs = map ?g [1 .. 10]"
    by blast
  have "length (map position cs) = length (map ?g [1 .. 10])" by (simp only: cs(2))
  then have len: "length cs = 10" by simp
  have srt: "sorted_wrt (<) (map position cs)"
    unfolding cs(2)
    by (rule sorted_wrt_map_mono[OF sorted_wrt_upto]) (use spread_step_mono[OF d] in simp)
  then have dist: "distinct (map position cs)"
    by (simp add: strict_sorted_iff)
  have rng: "\<forall>c \<in> set cs. good_index < position c \<and> position c < bad_index"
  proof
    fix c assume "c \<in> set cs"
    then have "position c \<in> set (map position cs)" by simp
    then obtain i where i: "i \<in> set [1 .. 10]" "position c = ?g i"
      unfolding cs(2) by auto
    from i(1) spread_step_bounds[OF d, of i] i(2)
    show "good_index < position c \<and> position c < bad_index" by simp
  qed
  from cs(1) len dist srt rng
  show "\<exists>cs. generate_candidates tags good_index bad_index = Inr cs
              \<and> length cs = 10
              \<and> distinct (map position cs)
              \<and> sorted_wrt (<) (map position cs)
              \<and> (\<forall>c \<in> set cs. good_index < position c \<and> position c < bad_index)"
    by blast
next
  assume "0 < bad_index - good_index - 1 \<and> bad_index - good_index - 1 \<le> 10"
  then have "good_index < bad_index" "bad_index - good_index - 1 \<le> 10" by simp_all
  from generate_candidates_small[OF assms this]
  show "\<exists>cs. generate_candidates tags good_index bad_index = Inr cs
              \<and> map position cs = [good_index + 1 .. bad_index - 1]" .
next
  assume e: "good_index = 0 \<and> bad_index = 24"
  then have "bad_index - good_index - 1 > 10" by simp
  from generate_candidates_large[OF assms this] e
  show "\<exists>cs. generate_candidates tags good_index bad_index = Inr cs
              \<and> map position cs = [2, 4, 6, 8, 10, 13, 15, 17, 19, 21]"
    by (simp add: upto_1_10)
next
  assume e: "good_index = 5 \<and> bad_index = 9"
  then have "good_index < bad_index" "bad_index - good_index - 1 \<le> 10" by simp_all
  from generate_candidates_small[OF assms this] e
  show "\<exists>cs. generate_candidates tags good_index bad_index = Inr cs
              \<and> map position cs = [6, 7, 8]"
    by (simp only: upto_6_8)
qed

theorem generate_candidates_positions_witness:
  "(\<exists>cs. generate_candidates example_tags 0 24 = Inr cs
      \<and> length cs = 10 \<and> distinct (map position cs) \<and> sorted_wrt (<) (map position cs)
      \<and> (\<forall>c \<in> set cs. 0 < position c \<and> position c < 24)
      \<and> map position cs = [2, 4, 6, 8, 10, 13, 15, 17, 19, 21])
   \<and> (\<exists>cs. generate_candidates example_tags 5 9 = Inr cs \<and> map position cs = [6, 7, 8])"
proof -
  have len: "length example_tags = 25" by (simp add: example_tags_def)
  have a: "- int (length example_tags) \<le> 0 + 1" "24 \<le> int (length example_tags)"
    and b: "- int (length example_tags) \<le> 5 + 1" "9 \<le> int (length example_tags)"
    by (simp_all add: len)
  from generate_candidates_positions[OF a] have
    "\<exists>cs. generate_candidates example_tags 0 24 = Inr cs
      \<and> length cs = 10 \<and> distinct (map position cs) \<and> sorted_wrt (<) (map position cs)
      \<and> (\<forall>c \<in> set cs. 0 < position c \<and> position c < 24)"
    and "\<exists>cs. generate_candidates example_tags 0 24 = Inr cs
      \<and> map position cs = [2, 4, 6, 8, 10, 13, 15, 17, 19, 21]"
    by simp_all
  moreover from generate_candidates_positions[OF b] have
    "\<exists>cs. generate_candidates example_tags 5 9 = Inr cs \<and> map position cs = [6, 7, 8]"
    by simp
  ultimately show ?thesis by auto
qed

section \<open>Range update and progress\<close>

lemma rightmost_working_ge: "g \<le> rightmost_working tags fb g"
  by (induction tags fb g rule: rightmost_working.induct) (auto split: option.splits)

lemma leftmost_broken_le: "leftmost_broken tags fb b \<le> b"
  by (induction tags fb b rule: leftmost_broken.induct) (auto split: option.splits)

lemma rightmost_working_append:
  "rightmost_working tags (fb1 @ fb2) g = rightmost_working tags fb2 (rightmost_working tags fb1 g)"
  by (induction tags fb1 g rule: rightmost_working.induct) simp_all

lemma leftmost_broken_append:
  "leftmost_broken tags (fb1 @ fb2) b = leftmost_broken tags fb2 (leftmost_broken tags fb1 b)"
  by (induction tags fb1 b rule: leftmost_broken.induct) simp_all

lemma rightmost_working_source:
  "rightmost_working tags fb g \<noteq> g \<Longrightarrow>
   \<exists>tid. (tid, ''working'') \<in> set fb \<and> find_tag_index tags tid = Some (rightmost_working tags fb g)"
proof (induction tags fb g rule: rightmost_working.induct)
  case (1 tags new_good)
  then show ?case by simp
next
  case (2 tags tid result items new_good)
  let ?g = "(if result = ''working'' then
          (case find_tag_index tags tid of
             Some tag_index \<Rightarrow> max new_good tag_index
           | None \<Rightarrow> new_good)
        else new_good)"
  show ?case
  proof (cases "rightmost_working tags items ?g = ?g")
    case True
    with "2.prems" have "?g \<noteq> new_good" by simp
    then have "result = ''working''" and "find_tag_index tags tid = Some ?g"
      by (auto split: if_splits option.splits simp: max_def)
    with True show ?thesis by auto
  next
    case False
    from "2.IH"[OF False] show ?thesis by auto
  qed
qed

lemma leftmost_broken_source:
  "leftmost_broken tags fb b \<noteq> b \<Longrightarrow>
   \<exists>tid. (tid, ''broken'') \<in> set fb \<and> find_tag_index tags tid = Some (leftmost_broken tags fb b)"
proof (induction tags fb b rule: leftmost_broken.induct)
  case (1 tags new_bad)
  then show ?case by simp
next
  case (2 tags tid result items new_bad)
  let ?b = "(if result = ''broken'' then
          (case find_tag_index tags tid of
             Some tag_index \<Rightarrow> min new_bad tag_index
           | None \<Rightarrow> new_bad)
        else new_bad)"
  show ?case
  proof (cases "leftmost_broken tags items ?b = ?b")
    case True
    with "2.prems" have "?b \<noteq> new_bad" by simp
    then have "result = ''broken''" and "find_tag_index tags tid = Some ?b"
      by (auto split: if_splits option.splits simp: min_def)
    with True show ?thesis by auto
  next
    case False
    from "2.IH"[OF False] show ?thesis by auto
  qed
qed

lemma rightmost_working_skip:
  assumes "find_tag_index tags tid = Some i" "i \<le> g"
  shows "rightmost_working tags (fb1 @ (tid, ''working'') # fb2) g = rightmost_working tags (fb1 @ fb2) g"
proof -
  have "g \<le> rightmost_working tags fb1 g" by (rule rightmost_working_ge)
  with assms have "max (rightmost_working tags fb1 g) i = rightmost_working tags fb1 g" by simp
  with assms(1) show ?thesis by (simp add: rightmost_working_append)
qed

lemma leftmost_broken_skip:
  assumes "find_tag_index tags tid = Some i" "b \<le> i"
  shows "leftmost_broken tags (fb1 @ (tid, ''broken'') # fb2) b = leftmost_broken tags (fb1 @ fb2) b"
proof -
  have "leftmost_broken tags fb1 b \<le> b" by (rule leftmost_broken_le)
  with assms have "min (leftmost_broken tags fb1 b) i = leftmost_broken tags fb1 b" by simp
  with assms(1) show ?thesis by (simp add: leftmost_broken_append)
qed

lemma update_range_empty:
  "snd (update_range tags state []) = (st_good_index state, st_bad_index state)"
  by (simp add: update_range_def)

lemma leftmost_broken_ignores_working:
  "leftmost_broken tags (fb1 @ (tid, ''working'') # fb2) b = leftmost_broken tags (fb1 @ fb2) b"
  by (simp add: leftmost_broken_append)

lemma rightmost_working_ignores_broken:
  "rightmost_working tags (fb1 @ (tid, ''broken'') # fb2) g = rightmost_working tags (fb1 @ fb2) g"
  by (simp add: rightmost_working_append)

text \<open>
  Claim C4. For every search state and every feedback map, \<open>update_range\<close> returns a good
  index that is at least the state's and a bad index that is at most the state's. A
  \<open>working\<close> verdict on a tag whose index is below the state's good index can be removed
  from the feedback map without changing the returned pair, and alone it returns the
  state's own pair; likewise a \<open>broken\<close> verdict on a tag whose index is above the
  state's bad index. A returned bound that differs from the state's is the index of a tag
  that the feedback map holds with the matching verdict, so tags absent from the map
  change neither bound.
\<close>

theorem update_range_narrows:
  "st_good_index state \<le> fst (snd (update_range tags state feedback))
   \<and> snd (snd (update_range tags state feedback)) \<le> st_bad_index state
   \<and> (find_tag_index tags tid = Some i \<and> i < st_good_index state \<longrightarrow>
        snd (update_range tags state (fb1 @ (tid, ''working'') # fb2))
          = snd (update_range tags state (fb1 @ fb2))
        \<and> snd (update_range tags state [(tid, ''working'')])
          = (st_good_index state, st_bad_index state))
   \<and> (find_tag_index tags tid = Some i \<and> st_bad_index state < i \<longrightarrow>
        snd (update_range tags state (fb1 @ (tid, ''broken'') # fb2))
          = snd (update_range tags state (fb1 @ fb2))
        \<and> snd (update_range tags state [(tid, ''broken'')])
          = (st_good_index state, st_bad_index state))
   \<and> (fst (snd (update_range tags state feedback)) \<noteq> st_good_index state \<longrightarrow>
        (\<exists>t. (t, ''working'') \<in> set feedback
           \<and> find_tag_index tags t = Some (fst (snd (update_range tags state feedback)))))
   \<and> (snd (snd (update_range tags state feedback)) \<noteq> st_bad_index state \<longrightarrow>
        (\<exists>t. (t, ''broken'') \<in> set feedback
           \<and> find_tag_index tags t = Some (snd (snd (update_range tags state feedback)))))"
proof (intro conjI impI)
  show "st_good_index state \<le> fst (snd (update_range tags state feedback))"
    by (simp add: update_range_def rightmost_working_ge)
  show "snd (snd (update_range tags state feedback)) \<le> st_bad_index state"
    by (simp add: update_range_def leftmost_broken_le)
next
  assume a: "find_tag_index tags tid = Some i \<and> i < st_good_index state"
  then have f: "find_tag_index tags tid = Some i" and le: "i \<le> st_good_index state"
    by simp_all
  show "snd (update_range tags state (fb1 @ (tid, ''working'') # fb2))
          = snd (update_range tags state (fb1 @ fb2))"
    unfolding update_range_def snd_conv
    by (simp only: rightmost_working_skip[OF f le] leftmost_broken_ignores_working)
  from rightmost_working_skip[OF f le, of "[]" "[]"]
  show "snd (update_range tags state [(tid, ''working'')])
          = (st_good_index state, st_bad_index state)"
    by (simp add: update_range_def)
next
  assume a: "find_tag_index tags tid = Some i \<and> st_bad_index state < i"
  then have f: "find_tag_index tags tid = Some i" and le: "st_bad_index state \<le> i"
    by simp_all
  show "snd (update_range tags state (fb1 @ (tid, ''broken'') # fb2))
          = snd (update_range tags state (fb1 @ fb2))"
    unfolding update_range_def snd_conv
    by (simp only: leftmost_broken_skip[OF f le] rightmost_working_ignores_broken)
  from leftmost_broken_skip[OF f le, of "[]" "[]"]
  show "snd (update_range tags state [(tid, ''broken'')])
          = (st_good_index state, st_bad_index state)"
    by (simp add: update_range_def)
next
  assume "fst (snd (update_range tags state feedback)) \<noteq> st_good_index state"
  then have "rightmost_working tags feedback (st_good_index state) \<noteq> st_good_index state"
    by (simp add: update_range_def)
  from rightmost_working_source[OF this]
  show "\<exists>t. (t, ''working'') \<in> set feedback
           \<and> find_tag_index tags t = Some (fst (snd (update_range tags state feedback)))"
    by (simp add: update_range_def)
next
  assume "snd (snd (update_range tags state feedback)) \<noteq> st_bad_index state"
  then have "leftmost_broken tags feedback (st_bad_index state) \<noteq> st_bad_index state"
    by (simp add: update_range_def)
  from leftmost_broken_source[OF this]
  show "\<exists>t. (t, ''broken'') \<in> set feedback
           \<and> find_tag_index tags t = Some (snd (snd (update_range tags state feedback)))"
    by (simp add: update_range_def)
qed

theorem update_range_narrows_witness:
  "find_tag_index example_tags (tag_id (example_tag 2)) = Some 2
   \<and> 2 < st_good_index example_state
   \<and> snd (update_range example_tags example_state [(tag_id (example_tag 2), ''working'')])
        = (4, 20)
   \<and> find_tag_index example_tags (tag_id (example_tag 22)) = Some 22
   \<and> st_bad_index example_state < 22
   \<and> snd (update_range example_tags example_state [(tag_id (example_tag 22), ''broken'')])
        = (4, 20)
   \<and> snd (update_range example_tags example_state example_feedback) = (7, 12)
   \<and> (\<exists>t. (t, ''working'') \<in> set example_feedback \<and> find_tag_index example_tags t = Some 7)
   \<and> (\<exists>t. (t, ''broken'') \<in> set example_feedback \<and> find_tag_index example_tags t = Some 12)"
proof -
  have f2: "find_tag_index example_tags (tag_id (example_tag 2)) = Some 2"
    by code_simp
  have f22: "find_tag_index example_tags (tag_id (example_tag 22)) = Some 22"
    by code_simp
  have st: "st_good_index example_state = 4" "st_bad_index example_state = 20"
    by (simp_all add: example_state_def)
  have ev: "snd (update_range example_tags example_state example_feedback) = (7, 12)"
    by code_simp
  from update_range_narrows[of example_state example_tags example_feedback
      "tag_id (example_tag 2)" 2 "[]" "[]"] f2 st
  have w: "snd (update_range example_tags example_state [(tag_id (example_tag 2), ''working'')])
        = (4, 20)"
    by (simp add: update_range_empty)
  from update_range_narrows[of example_state example_tags example_feedback
      "tag_id (example_tag 22)" 22 "[]" "[]"] f22 st
  have b: "snd (update_range example_tags example_state [(tag_id (example_tag 22), ''broken'')])
        = (4, 20)"
    by (simp add: update_range_empty)
  from update_range_narrows[of example_state example_tags example_feedback
      "tag_id (example_tag 2)" 2 "[]" "[]"] st ev
  have s: "(\<exists>t. (t, ''working'') \<in> set example_feedback \<and> find_tag_index example_tags t = Some 7)
    \<and> (\<exists>t. (t, ''broken'') \<in> set example_feedback \<and> find_tag_index example_tags t = Some 12)"
    by simp
  from f2 f22 st ev w b s show ?thesis by simp
qed







section \<open>Authentication\<close>

lemma verify_token_rejects:
  "(decode token = Inl e \<longrightarrow> verify_token decode token token_type = Inr None)
   \<and> (decode token = Inr payload \<and> dict_get payload ''type'' CNull \<noteq> CStr token_type \<longrightarrow>
        verify_token decode token token_type = Inr None)
   \<and> (decode token = Inr payload \<and> dict_get payload ''sub'' CNull = CNull \<longrightarrow>
        verify_token decode token token_type = Inr None)"
  by (simp add: verify_token_def Let_def)

lemma str_items_strings: "str_items (map CStr ss) = Inr ss"
  by (induction ss) simp_all

lemma verify_token_well_typed:
  assumes "decode token = Inr payload"
    and "dict_get payload ''type'' CNull = CStr token_type"
    and "dict_get payload ''sub'' CNull = CStr subject"
    and "dict_get payload ''user_id'' CNull = CStr uid"
    and "dict_get payload ''scopes'' (CList []) = CList (map CStr scopes)"
  shows "verify_token decode token token_type
           = Inr (Some \<lparr>td_username = Some subject, td_user_id = Some uid, td_scopes = scopes\<rparr>)"
  using assms
  by (simp add: verify_token_def Let_def TokenData_init_def optional_str_def str_list_def
      str_items_strings)

text \<open>
  Claim C6 says that \<open>verify_token\<close> never raises past its boundary and returns token
  data for every token that decodes, has the requested type and carries a subject. The
  function catches \<open>JWTError\<close> only. For the access token whose claims are the subject
  \<open>alice\<close>, the user id \<open>u1\<close> and \<open>scopes: null\<close>, decoding succeeds, the type and
  the subject are as required, and the construction of \<open>TokenData\<close> raises
  \<open>ValidationError\<close>, which leaves \<open>verify_token\<close>.
\<close>

theorem verify_token_validation_error_escapes:
  "example_decode ''token-null-scopes'' = Inr (access_claims ''alice'' ''u1'' CNull)
   \<and> dict_get (access_claims ''alice'' ''u1'' CNull) ''type'' CNull = CStr ''access''
   \<and> dict_get (access_claims ''alice'' ''u1'' CNull) ''sub'' CNull = CStr ''alice''
   \<and> dict_get (access_claims ''alice'' ''u1'' CNull) ''scopes'' (CList []) = CNull
   \<and> TokenData_init (CStr ''alice'') (CStr ''u1'') CNull = Inl ValidationError
   \<and> verify_token example_decode ''token-null-scopes'' ''access'' = Inl ValidationError"
  by (simp add: verify_token_def example_decode_def access_claims_def dict_get_def
      TokenData_init_def optional_str_def str_list_def Let_def)

text \<open>
  Claim C7, as stated, fails: a token that resolves to an inactive account is answered
  with status 400 and no challenge header, not with 401.
\<close>

theorem get_current_user_inactive_counterexample:
  "verify_token example_decode ''token-bob'' ''access''
     = Inr (Some \<lparr>td_username = Some ''bob'', td_user_id = Some ''u2'',
                  td_scopes = [''read'']\<rparr>)
   \<and> first_row (\<lambda>u. user_username u = ''bob'') example_users
     = Some \<lparr>user_id = ''u2'', user_email = ''bob@example.org'', user_username = ''bob'',
             user_password_hash = ''h2'', user_is_active = False\<rparr>
   \<and> get_current_user example_decode example_users [] ''token-bob''
     = Inl (HTTPException 400 ''Inactive user'' [])
   \<and> get_current_user example_decode example_users [] ''token-bob''
     \<noteq> Inl (credentials_exception [])"
  by (simp add: get_current_user_def verify_token_def example_decode_def example_users_def
      access_claims_def dict_get_def TokenData_init_def optional_str_def str_list_def
      first_row_def credentials_exception_def Let_def)

text \<open>
  Claim C7, amended. The guard rejects a request whose bearer token resolves to a user
  record whose account is inactive with a 400 response with detail \<open>Inactive user\<close> and
  no challenge header. This differs from the rejection used when the token is invalid or
  the user no longer exists, which is a 401 response carrying a \<open>WWW-Authenticate\<close>
  challenge header.
\<close>

theorem get_current_user_rejections:
  "(verify_token decode token ''access'' = Inr (Some token_data)
      \<and> first_row (\<lambda>u. Some (user_username u) = td_username token_data) users = Some user
      \<and> \<not> user_is_active user \<longrightarrow>
      get_current_user decode users security_scopes token
        = Inl (HTTPException 400 ''Inactive user'' []))
   \<and> (verify_token decode token ''access'' = Inr None \<longrightarrow>
      get_current_user decode users security_scopes token
        = Inl (HTTPException 401 ''Could not validate credentials''
                 [(''WWW-Authenticate'', authenticate_value security_scopes)]))
   \<and> (verify_token decode token ''access'' = Inr (Some token_data)
      \<and> first_row (\<lambda>u. Some (user_username u) = td_username token_data) users = None \<longrightarrow>
      get_current_user decode users security_scopes token
        = Inl (HTTPException 401 ''Could not validate credentials''
                 [(''WWW-Authenticate'', authenticate_value security_scopes)]))"
  by (simp add: get_current_user_def credentials_exception_def)

theorem get_current_user_rejections_witness:
  "verify_token example_decode ''token-bob'' ''access''
     = Inr (Some \<lparr>td_username = Some ''bob'', td_user_id = Some ''u2'',
                  td_scopes = [''read'']\<rparr>)
   \<and> get_current_user example_decode example_users [''read''] ''token-bob''
     = Inl (HTTPException 400 ''Inactive user'' [])
   \<and> verify_token example_decode ''forged'' ''access'' = Inr None
   \<and> get_current_user example_decode example_users [] ''forged''
     = Inl (HTTPException 401 ''Could not validate credentials''
              [(''WWW-Authenticate'', ''Bearer'')])
   \<and> verify_token example_decode ''token-carol'' ''access''
     = Inr (Some \<lparr>td_username = Some ''carol'', td_user_id = Some ''u3'', td_scopes = []\<rparr>)
   \<and> get_current_user example_decode example_users [] ''token-carol''
     = Inl (HTTPException 401 ''Could not validate credentials''
              [(''WWW-Authenticate'', ''Bearer'')])"
proof -
  let ?bob = "\<lparr>user_id = ''u2'', user_email = ''bob@example.org'', user_username = ''bob'',
             user_password_hash = ''h2'', user_is_active = False\<rparr>"
  let ?tb = "\<lparr>td_username = Some ''bob'', td_user_id = Some ''u2'', td_scopes = [''read'']\<rparr>"
  let ?tc = "\<lparr>td_username = Some ''carol'', td_user_id = Some ''u3'', td_scopes = []\<rparr>"
  have vb: "verify_token example_decode ''token-bob'' ''access'' = Inr (Some ?tb)"
    and vf: "verify_token example_decode ''forged'' ''access'' = Inr None"
    and vc: "verify_token example_decode ''token-carol'' ''access'' = Inr (Some ?tc)"
    by (simp_all add: verify_token_def example_decode_def access_claims_def dict_get_def
        TokenData_init_def optional_str_def str_list_def Let_def)
  have fb: "first_row (\<lambda>u. Some (user_username u) = td_username ?tb) example_users = Some ?bob"
    and fc: "first_row (\<lambda>u. Some (user_username u) = td_username ?tc) example_users = None"
    by (simp_all add: first_row_def example_users_def)
  from get_current_user_rejections[of example_decode "''token-bob''" ?tb example_users ?bob
      "[''read'']"] vb fb
  have 1: "get_current_user example_decode example_users [''read''] ''token-bob''
     = Inl (HTTPException 400 ''Inactive user'' [])" by simp
  from get_current_user_rejections[of example_decode "''forged''" ?tb example_users ?bob "[]"] vf
  have 2: "get_current_user example_decode example_users [] ''forged''
     = Inl (HTTPException 401 ''Could not validate credentials''
              [(''WWW-Authenticate'', ''Bearer'')])"
    by (simp add: authenticate_value_def)
  from get_current_user_rejections[of example_decode "''token-carol''" ?tc example_users ?bob
      "[]"] vc fc
  have 3: "get_current_user example_decode example_users [] ''token-carol''
     = Inl (HTTPException 401 ''Could not validate credentials''
              [(''WWW-Authenticate'', ''Bearer'')])"
    by (simp add: authenticate_value_def)
  from vb vf vc 1 2 3 show ?thesis by simp
qed

section \<open>Task creation\<close>


lemma create_task_null_sequence:
  assumes "first_row (\<lambda>p. project_id p = tc_project_id task_data
                         \<and> project_created_by p = user_id current_user)
             (db_projects db) = Some project"
    and "first_row (\<lambda>b. branch_id b = tc_branch_id task_data
                         \<and> branch_project_id b = tc_project_id task_data)
             (db_branches db) = Some branch"
    and "named_tag db task_data (tc_good_tag_name task_data) = Some good_tag"
    and "named_tag db task_data (tc_bad_tag_name task_data) = Some bad_tag"
    and "seq_or_0 good_tag < seq_or_0 bad_tag"
    and "tag_sequence_number good_tag = None \<or> tag_sequence_number bad_tag = None"
  shows "create_task db current_user task_data new_task_id new_session_id now
           = (db, Inl ArgumentError)"
  using assms by (auto simp: create_task_def split: option.splits)



section \<open>Candidate selection\<close>

lemma new_iteration_range:
  "it_search_range_start (new_iteration task tid candidate_indices new_iteration_id) = 0"
  "it_search_range_end (new_iteration task tid candidate_indices new_iteration_id) = 0"
  by (simp_all add: new_iteration_def)

lemma new_iteration_invalid:
  "\<not> check_range_valid (new_iteration task tid candidate_indices new_iteration_id)"
  by (simp add: check_range_valid_def new_iteration_range)


lemma select_candidates_never_succeeds:
  "snd (select_candidates_for_testing db current_user tid candidate_indices new_iteration_id)
     \<noteq> Inr r"
  by (simp add: select_candidates_for_testing_def new_iteration_invalid Let_def
      split: option.splits)

text \<open>
  Claim C2 says that the iteration created by an accepted select-candidates request
  satisfies \<open>search_range_end > search_range_start\<close>. The endpoint builds the iteration
  with both bounds 0. For the owned, active task of the example database and the three
  candidate indices 0, 1, 2 the iteration violates \<open>check_range_valid\<close>, so that the
  commit raises \<open>IntegrityError\<close> and no iteration is stored.
\<close>

theorem select_candidates_violates_check_range_valid:
  "owned_task example_db ''task1'' alice = Some example_task
   \<and> lt_status example_task = ''active''
   \<and> length [0, 1, 2 :: int] = 3
   \<and> it_search_range_start (new_iteration example_task ''task1'' [0, 1, 2] ''it2'') = 0
   \<and> it_search_range_end (new_iteration example_task ''task1'' [0, 1, 2] ''it2'') = 0
   \<and> \<not> check_range_valid (new_iteration example_task ''task1'' [0, 1, 2] ''it2'')
   \<and> select_candidates_for_testing example_db alice ''task1'' [0, 1, 2] ''it2''
       = (example_db, Inl (IntegrityError ''check_range_valid''))"
proof -
  have o: "owned_task example_db ''task1'' alice = Some example_task"
    by (simp add: owned_task_def first_row_def example_db_def example_task_def alice_def)
  have a: "lt_status example_task = ''active''" by (simp add: example_task_def)
  from o a have "select_candidates_for_testing example_db alice ''task1'' [0, 1, 2] ''it2''
       = (example_db, Inl (IntegrityError ''check_range_valid''))"
    by (simp add: select_candidates_for_testing_def new_iteration_invalid Let_def)
  with o a show ?thesis by (simp add: new_iteration_range new_iteration_invalid)
qed

section \<open>Build feedback\<close>

lemma owned_build_job_feedback_update:
  "owned_build_job (db\<lparr>db_feedback := fb\<rparr>) build_id u = owned_build_job db build_id u"
  by (simp add: owned_build_job_def)

lemma submit_build_feedback_single:
  assumes job: "owned_build_job db build_id current_user = Some build_job"
    and le: "length (filter (\<lambda>f. uf_build_job_id f = build_id) (db_feedback db)) \<le> 1"
  shows "\<exists>fb' row. submit_build_feedback db current_user build_id feedback new_id
                  = (db\<lparr>db_feedback := fb'\<rparr>, Inr row)
           \<and> filter (\<lambda>f. uf_build_job_id f = build_id) fb' = [row]
           \<and> uf_feedback_type row = fr_feedback_type feedback
           \<and> uf_notes row = fr_notes feedback"
proof (cases "first_row (\<lambda>f. uf_build_job_id f = build_id) (db_feedback db)")
  case None
  let ?row = "\<lparr>uf_id = new_id, uf_task_id = bj_task_id build_job,
                 uf_iteration_id = bj_iteration_id build_job,
                 uf_build_job_id = bj_id build_job, uf_tag_id = bj_tag_id build_job,
                 uf_feedback_type = fr_feedback_type feedback,
                 uf_notes = fr_notes feedback,
                 uf_created_by = user_id current_user\<rparr>"
  from None have e: "filter (\<lambda>f. uf_build_job_id f = build_id) (db_feedback db) = []"
    by (auto simp: first_row_None_iff filter_empty_conv)
  from job have i: "bj_id build_job = build_id"
    unfolding owned_build_job_def by (auto dest: first_row_SomeD)
  from job None have r: "submit_build_feedback db current_user build_id feedback new_id
      = (db\<lparr>db_feedback := db_feedback db @ [?row]\<rparr>, Inr ?row)"
    by (simp add: submit_build_feedback_def Let_def)
  from e i have f: "filter (\<lambda>f. uf_build_job_id f = build_id) (db_feedback db @ [?row]) = [?row]"
    by simp
  have "uf_feedback_type ?row = fr_feedback_type feedback" "uf_notes ?row = fr_notes feedback"
    by simp_all
  with r f show ?thesis by blast
next
  case (Some ex)
  let ?f = "\<lambda>f. if uf_id f = uf_id ex
                  then f\<lparr>uf_feedback_type := fr_feedback_type feedback, uf_notes := fr_notes feedback\<rparr>
                  else f"
  let ?row = "ex\<lparr>uf_feedback_type := fr_feedback_type feedback, uf_notes := fr_notes feedback\<rparr>"
  from Some have ex: "ex \<in> set (db_feedback db)" "uf_build_job_id ex = build_id"
    by (auto dest: first_row_SomeD)
  from filter_single[OF le ex(1)] ex(2)
  have one: "filter (\<lambda>f. uf_build_job_id f = build_id) (db_feedback db) = [ex]" by simp
  have "filter (\<lambda>f. uf_build_job_id f = build_id) (map ?f (db_feedback db))
        = map ?f (filter (\<lambda>f. uf_build_job_id f = build_id) (db_feedback db))"
    by (simp add: filter_map o_def cong: if_cong)
  with one have f: "filter (\<lambda>f. uf_build_job_id f = build_id) (map ?f (db_feedback db)) = [?row]"
    by simp
  from job Some have r: "submit_build_feedback db current_user build_id feedback new_id
      = (db\<lparr>db_feedback := map ?f (db_feedback db)\<rparr>, Inr ?row)"
    by (simp add: submit_build_feedback_def)
  have "uf_feedback_type ?row = fr_feedback_type feedback" "uf_notes ?row = fr_notes feedback"
    by simp_all
  with r f show ?thesis by blast
qed

text \<open>
  Claim C8. Let the build job be one that the user owns through its task, with at most
  one feedback row before the two submissions (which holds when this endpoint is the only
  writer of the table). Submitting feedback twice for it succeeds both times and leaves
  exactly one feedback row for the build job; the type and notes of that row are those of
  the second submission.
\<close>

theorem submit_build_feedback_twice:
  assumes "owned_build_job db build_id current_user = Some build_job"
    and "length (filter (\<lambda>f. uf_build_job_id f = build_id) (db_feedback db)) \<le> 1"
  shows "\<exists>db1 row1 db2 row2.
           submit_build_feedback db current_user build_id first_feedback id1 = (db1, Inr row1)
           \<and> submit_build_feedback db1 current_user build_id second_feedback id2
               = (db2, Inr row2)
           \<and> filter (\<lambda>f. uf_build_job_id f = build_id) (db_feedback db2) = [row2]
           \<and> uf_feedback_type row2 = fr_feedback_type second_feedback
           \<and> uf_notes row2 = fr_notes second_feedback"
proof -
  from submit_build_feedback_single[OF assms, of first_feedback id1] obtain fb1 row1 where
    s1: "submit_build_feedback db current_user build_id first_feedback id1
           = (db\<lparr>db_feedback := fb1\<rparr>, Inr row1)"
    and f1: "filter (\<lambda>f. uf_build_job_id f = build_id) fb1 = [row1]"
    by blast
  let ?db1 = "db\<lparr>db_feedback := fb1\<rparr>"
  have job1: "owned_build_job ?db1 build_id current_user = Some build_job"
    by (simp only: owned_build_job_feedback_update assms(1))
  from f1 have le1: "length (filter (\<lambda>f. uf_build_job_id f = build_id) (db_feedback ?db1)) \<le> 1"
    by simp
  from submit_build_feedback_single[OF job1 le1, of second_feedback id2] obtain fb2 row2 where
    s2: "submit_build_feedback ?db1 current_user build_id second_feedback id2
           = (?db1\<lparr>db_feedback := fb2\<rparr>, Inr row2)"
    and f2: "filter (\<lambda>f. uf_build_job_id f = build_id) fb2 = [row2]"
    and v2: "uf_feedback_type row2 = fr_feedback_type second_feedback"
            "uf_notes row2 = fr_notes second_feedback"
    by blast
  from f2 have "filter (\<lambda>f. uf_build_job_id f = build_id)
                  (db_feedback (?db1\<lparr>db_feedback := fb2\<rparr>)) = [row2]"
    by simp
  with s1 s2 v2 show ?thesis by blast
qed

theorem submit_build_feedback_twice_witness:
  "owned_build_job example_db ''b1'' alice = Some (example_job ''b1'' 5 ''running'' None)
   \<and> length (filter (\<lambda>f. uf_build_job_id f = ''b1'') (db_feedback example_db)) \<le> 1
   \<and> (\<exists>db1 row1 db2 row2.
        submit_build_feedback example_db alice ''b1''
          \<lparr>fr_feedback_type = ''working'', fr_notes = None\<rparr> ''f2'' = (db1, Inr row1)
        \<and> submit_build_feedback db1 alice ''b1''
          \<lparr>fr_feedback_type = ''broken'', fr_notes = Some ''crashes at start''\<rparr> ''f3''
            = (db2, Inr row2)
        \<and> filter (\<lambda>f. uf_build_job_id f = ''b1'') (db_feedback db2) = [row2]
        \<and> uf_feedback_type row2 = ''broken''
        \<and> uf_notes row2 = Some ''crashes at start'')"
proof -
  have j: "owned_build_job example_db ''b1'' alice = Some (example_job ''b1'' 5 ''running'' None)"
    by (simp add: owned_build_job_def first_row_def example_db_def example_job_def
        example_task_def alice_def)
  have l: "length (filter (\<lambda>f. uf_build_job_id f = ''b1'') (db_feedback example_db)) \<le> 1"
    by (simp add: example_db_def)
  from submit_build_feedback_twice[OF j l,
      of "\<lparr>fr_feedback_type = ''working'', fr_notes = None\<rparr>" "''f2''"
         "\<lparr>fr_feedback_type = ''broken'', fr_notes = Some ''crashes at start''\<rparr>" "''f3''"]
  have "\<exists>db1 row1 db2 row2.
        submit_build_feedback example_db alice ''b1''
          \<lparr>fr_feedback_type = ''working'', fr_notes = None\<rparr> ''f2'' = (db1, Inr row1)
        \<and> submit_build_feedback db1 alice ''b1''
          \<lparr>fr_feedback_type = ''broken'', fr_notes = Some ''crashes at start''\<rparr> ''f3''
            = (db2, Inr row2)
        \<and> filter (\<lambda>f. uf_build_job_id f = ''b1'') (db_feedback db2) = [row2]
        \<and> uf_feedback_type row2 = ''broken''
        \<and> uf_notes row2 = Some ''crashes at start''"
    by simp
  with j l show ?thesis by blast
qed

section \<open>Build cancellation\<close>

lemma owned_build_job_jobs_update:
  assumes "\<And>b. bj_id (f b) = bj_id b" "\<And>b. bj_task_id (f b) = bj_task_id b"
  shows "owned_build_job (db\<lparr>db_build_jobs := map f (db_build_jobs db)\<rparr>) build_id u
           = map_option f (owned_build_job db build_id u)"
  unfolding owned_build_job_def
  by (simp add: first_row_map assms)

text \<open>
  Claim C9. Let the build job be one that the user owns through its task. When its
  status is none of \<open>success\<close>, \<open>failed\<close>, \<open>cancelled\<close>, cancelling it leaves the record
  with status \<open>cancelled\<close> and a completion time (the clock's when none was set, the
  earlier one otherwise), whatever the external service does: whether it raises, refuses
  or accepts, and whether or not an external build id and an active service
  configuration exist. When its status is one of the three, the response reports that
  status and the database is unchanged.
\<close>

theorem cancel_build_reaches_cancelled:
  assumes "owned_build_job db build_id current_user = Some build_job"
  shows "(bj_status build_job \<notin> {''success'', ''failed'', ''cancelled''} \<longrightarrow>
           (\<exists>db' job' success.
              cancel_build ext db current_user build_id now
                = (db', Inr \<lparr>cn_message = (if success then ''Build cancelled''
                                               else ''Build marked as cancelled locally''),
                               cn_external_cancellation = Some success,
                               cn_status = ''cancelled''\<rparr>)
              \<and> owned_build_job db' build_id current_user = Some job'
              \<and> bj_status job' = ''cancelled''
              \<and> bj_completed_at job' \<noteq> None
              \<and> bj_completed_at job'
                  = Some (case bj_completed_at build_job of None \<Rightarrow> now | Some t \<Rightarrow> t)))
       \<and> (bj_status build_job \<in> {''success'', ''failed'', ''cancelled''} \<longrightarrow>
           cancel_build ext db current_user build_id now
             = (db, Inr \<lparr>cn_message = ''Build is already completed'',
                         cn_external_cancellation = None,
                         cn_status = bj_status build_job\<rparr>))"
proof (intro conjI impI)
  assume t: "bj_status build_job \<in> {''success'', ''failed'', ''cancelled''}"
  with assms show "cancel_build ext db current_user build_id now
             = (db, Inr \<lparr>cn_message = ''Build is already completed'',
                         cn_external_cancellation = None,
                         cn_status = bj_status build_job\<rparr>)"
    by (simp add: cancel_build_def)
next
  assume nt: "bj_status build_job \<notin> {''success'', ''failed'', ''cancelled''}"
  let ?f = "\<lambda>b. if bj_id b = bj_id build_job
                 then (if bj_completed_at build_job = None
                       then b\<lparr>bj_status := ''cancelled'', bj_completed_at := Some now\<rparr>
                       else b\<lparr>bj_status := ''cancelled''\<rparr>)
                 else b"
  let ?db' = "db\<lparr>db_build_jobs := map ?f (db_build_jobs db)\<rparr>"
  let ?success = "try_external_cancel ext db build_job"
  from assms nt have r: "cancel_build ext db current_user build_id now
      = (?db', Inr \<lparr>cn_message = (if ?success then ''Build cancelled''
                                     else ''Build marked as cancelled locally''),
                     cn_external_cancellation = Some ?success,
                     cn_status = ''cancelled''\<rparr>)"
    by (simp add: cancel_build_def Let_def)
  have "owned_build_job ?db' build_id current_user
          = map_option ?f (owned_build_job db build_id current_user)"
    by (rule owned_build_job_jobs_update) simp_all
  with assms have o: "owned_build_job ?db' build_id current_user = Some (?f build_job)"
    by simp
  have s: "bj_status (?f build_job) = ''cancelled''" by simp
  have c: "bj_completed_at (?f build_job)
             = Some (case bj_completed_at build_job of None \<Rightarrow> now | Some t \<Rightarrow> t)"
    by (cases "bj_completed_at build_job") simp_all
  then have n: "bj_completed_at (?f build_job) \<noteq> None" by simp
  from r o s n c
  show "\<exists>db' job' success.
              cancel_build ext db current_user build_id now
                = (db', Inr \<lparr>cn_message = (if success then ''Build cancelled''
                                               else ''Build marked as cancelled locally''),
                               cn_external_cancellation = Some success,
                               cn_status = ''cancelled''\<rparr>)
              \<and> owned_build_job db' build_id current_user = Some job'
              \<and> bj_status job' = ''cancelled''
              \<and> bj_completed_at job' \<noteq> None
              \<and> bj_completed_at job'
                  = Some (case bj_completed_at build_job of None \<Rightarrow> now | Some t \<Rightarrow> t)"
    by blast
qed

theorem cancel_build_reaches_cancelled_witness:
  "owned_build_job example_db ''b1'' alice = Some (example_job ''b1'' 5 ''running'' None)
   \<and> ''running'' \<notin> {''success'', ''failed'', ''cancelled''}
   \<and> try_external_cancel ext_raises example_db (example_job ''b1'' 5 ''running'' None) = False
   \<and> (\<exists>db' job'.
        cancel_build ext_raises example_db alice ''b1'' 300
          = (db', Inr \<lparr>cn_message = ''Build marked as cancelled locally'',
                        cn_external_cancellation = Some False, cn_status = ''cancelled''\<rparr>)
        \<and> owned_build_job db' ''b1'' alice = Some job'
        \<and> bj_status job' = ''cancelled'' \<and> bj_completed_at job' = Some 300)
   \<and> owned_build_job example_db ''b2'' alice = Some (example_job ''b2'' 9 ''success'' (Some 150))
   \<and> cancel_build ext_accepts example_db alice ''b2'' 300
        = (example_db, Inr \<lparr>cn_message = ''Build is already completed'',
                             cn_external_cancellation = None, cn_status = ''success''\<rparr>)"
proof -
  have j1: "owned_build_job example_db ''b1'' alice = Some (example_job ''b1'' 5 ''running'' None)"
    and j2: "owned_build_job example_db ''b2'' alice
               = Some (example_job ''b2'' 9 ''success'' (Some 150))"
    by (simp_all add: owned_build_job_def first_row_def example_db_def example_job_def
        example_task_def alice_def)
  have st: "bj_status (example_job ''b1'' 5 ''running'' None) = ''running''"
    "bj_completed_at (example_job ''b1'' 5 ''running'' None) = None"
    "bj_status (example_job ''b2'' 9 ''success'' (Some 150)) = ''success''"
    by (simp_all add: example_job_def)
  have x: "try_external_cancel ext_raises example_db (example_job ''b1'' 5 ''running'' None)
             = False"
    by (simp add: try_external_cancel_def ext_raises_def split: option.splits)
  from cancel_build_reaches_cancelled[OF j1, of ext_raises 300] st
  obtain db' job' success where
    r: "cancel_build ext_raises example_db alice ''b1'' 300
          = (db', Inr \<lparr>cn_message = (if success then ''Build cancelled''
                                         else ''Build marked as cancelled locally''),
                         cn_external_cancellation = Some success, cn_status = ''cancelled''\<rparr>)"
    and o: "owned_build_job db' ''b1'' alice = Some job'" "bj_status job' = ''cancelled''"
           "bj_completed_at job' = Some 300"
    by auto
  from j1 st(1) have "snd (cancel_build ext_raises example_db alice ''b1'' 300)
      = Inr \<lparr>cn_message = ''Build marked as cancelled locally'',
             cn_external_cancellation = Some False, cn_status = ''cancelled''\<rparr>"
    by (simp add: cancel_build_def x Let_def)
  with r have "\<not> success" by (auto split: if_splits)
  with r o have 1: "\<exists>db' job'.
        cancel_build ext_raises example_db alice ''b1'' 300
          = (db', Inr \<lparr>cn_message = ''Build marked as cancelled locally'',
                        cn_external_cancellation = Some False, cn_status = ''cancelled''\<rparr>)
        \<and> owned_build_job db' ''b1'' alice = Some job'
        \<and> bj_status job' = ''cancelled'' \<and> bj_completed_at job' = Some 300"
    by auto
  from cancel_build_reaches_cancelled[OF j2, of ext_accepts 300] st(3)
  have 2: "cancel_build ext_accepts example_db alice ''b2'' 300
        = (example_db, Inr \<lparr>cn_message = ''Build is already completed'',
                             cn_external_cancellation = None, cn_status = ''success''\<rparr>)"
    by simp
  from j1 j2 x 1 2 show ?thesis by simp
qed

section \<open>Stored search range\<close>

































end
